theory Spec2Isabelle
  imports Complex_Main
begin

section \<open>The frames module of cvat-core: data model\<close>

text \<open>
  The module \<^verbatim>\<open>cvat-core/src/frames.js\<close> keeps one cache object per task in the table
  \<^verbatim>\<open>frameDataCache\<close>. A cache object holds the task's metadata, its chunk size, the frame
  provider (the decoder of \<^verbatim>\<open>cvat-data\<close>) and two optional chunk requests: the active one
  and the next one. Everything the module does to the outside (settling a promise, calling
  the server, asking the provider to decode) is recorded as an effect, in the order of the
  calls.

  Numbers are JavaScript numbers, that is IEEE doubles. The model takes frame numbers,
  chunk sizes and task bounds as integers of magnitude below \<open>2 ^ 53\<close>, which a double
  holds exactly, and a positive chunk size: a division by zero, which JavaScript answers
  with \<^verbatim>\<open>Infinity\<close> or \<^verbatim>\<open>NaN\<close>, is outside the model.

  The module runs on one thread. Its handlers are the callback of the frame lookup in
  \<^verbatim>\<open>data\<close>, the \<^verbatim>\<open>then\<close>, \<^verbatim>\<open>catch\<close> and \<^verbatim>\<open>finally\<close> handlers chained on the promise of
  \<^verbatim>\<open>getData\<close>, and the two closures handed to the provider. Each runs to its end before
  the next one starts, and the model takes one step for each: the three handlers on the
  promise of \<^verbatim>\<open>getData\<close> are separate reactions, and other handlers can run between them.
  The server and the provider are outside the module: what they answer (the frame lookup,
  \<^verbatim>\<open>isChunkCached\<close>, the metadata, the outcome of a fetch, the frames the provider reports
  as decoded) is an input of the step, and their methods are taken not to throw.
\<close>

type_synonym task_id = nat
type_synonym promise_id = nat
type_synonym chunk = nat
type_synonym image = nat

text \<open>
  A thrown or rejected value: an instance of the module's \<^verbatim>\<open>Exception\<close> class, or any other
  value with a \<^verbatim>\<open>message\<close>.
\<close>

datatype js_error = Exception string | ForeignError string

fun message :: "js_error \<Rightarrow> string" where
  "message (Exception m) = m"
| "message (ForeignError m) = m"

fun instanceof_Exception :: "js_error \<Rightarrow> bool" where
  "instanceof_Exception (Exception m) = True"
| "instanceof_Exception (ForeignError m) = False"

text \<open>The \<^verbatim>\<open>TypeError\<close> of the engine for a property access on \<^verbatim>\<open>undefined\<close>.\<close>

definition TypeError :: js_error where
  "TypeError = ForeignError ''TypeError''"

record runtime =
  isNode :: bool
  isBrowser :: bool

record FrameData =
  width :: int
  height :: int
  tid :: task_id
  number :: int
  startFrame :: int
  stopFrame :: int

record frame_size =
  size_width :: int
  size_height :: int

text \<open>
  An entry of a chunk request's \<^verbatim>\<open>callbacks\<close> array is \<^verbatim>\<open>{resolve, reject, frameNumber}\<close>,
  where \<^verbatim>\<open>resolve\<close> and \<^verbatim>\<open>reject\<close> are the two settling functions of the promise that one
  call of \<^verbatim>\<open>data\<close> returned. The field \<open>promise\<close> names that promise.
\<close>

record callback =
  promise :: promise_id
  frameNumber :: int

text \<open>
  \<^verbatim>\<open>onDecodeAll\<close> and \<^verbatim>\<open>rejectRequestAll\<close> are closures made by each call of \<^verbatim>\<open>data\<close>; what
  they capture is the task id of the frame and the chunk number computed by that call.
\<close>

datatype closure = Closure (cl_tid: task_id) (cl_chunkNumber: int)

record chunk_request =
  request :: "(task_id \<times> int) option"
  chunkNumber :: int
  start :: int
  stop :: int
  onDecodeAll :: closure
  rejectRequestAll :: closure
  completed :: bool
  callbacks :: "callback list"

datatype BlockType = MP4VIDEO | ARCHIVE

text \<open>
  The frame provider is an object of \<^verbatim>\<open>cvat-data\<close>, which is not part of this module. The
  record keeps the arguments of its constructor, the render size set on it and the report
  of its \<^verbatim>\<open>cachedFrames\<close> getter.
\<close>

record FrameProvider =
  blockType :: BlockType
  blockSize :: int
  cachedBlockCount :: int
  decodedBlocksCacheSize_arg :: int
  maxWorkerThreadCount :: int
  renderSize :: "(int \<times> int) option"
  cachedFrames :: "(int \<times> int) list"

record task_cache =
  meta :: "frame_size list"
  chunkSize :: int
  provider :: FrameProvider
  lastFrameRequest :: int
  decodedBlocksCacheSize :: int
  activeChunkRequest :: "chunk_request option"
  nextChunkRequest :: "chunk_request option"

type_synonym registry = "task_id \<rightharpoonup> task_cache"

datatype resolution = DummyData | Decoded image | ProviderFrame int

datatype reason = ByFrameNumber int | ByError js_error

datatype effect =
    Resolve promise_id resolution
  | Reject promise_id reason
  | OnServerRequest promise_id
  | GetData task_id int
  | RequestDecodeBlock task_id "chunk option" int int closure closure

record world =
  frameDataCache :: registry
  trace :: "effect list"

section \<open>Numbers\<close>

text \<open>
  \<^verbatim>\<open>Math.floor\<close> of a quotient. The quotient of two integers below \<open>2 ^ 53\<close> is rounded to
  a double that lies on the same side of every integer as the exact quotient, so the floor
  is taken of the exact quotient.
\<close>

definition Math_floor :: "rat \<Rightarrow> int" where
  "Math_floor x = \<lfloor>x\<rfloor>"

text \<open>
  The double nearest to a rational, ties to the even significand. For a positive
  \<open>n / d\<close> the numerator is doubled and then the denominator is doubled until the
  quotient lies from \<open>2 ^ 52\<close> up to \<open>2 ^ 53\<close>; the quotient is rounded to an integer,
  and the powers of two are put back. The range of the exponent of a double is not
  modelled: the quotients of the model lie well inside it.
\<close>

function mantissa_up :: "int \<Rightarrow> int \<Rightarrow> int \<Rightarrow> int \<times> int" where
  "mantissa_up n d e =
     (if n \<le> 0 \<or> d \<le> 0 then (n, e)
      else if n < 2 ^ 52 * d then mantissa_up (2 * n) d (e - 1)
      else (n, e))"
  by pat_completeness auto
termination
  by (relation "measure (\<lambda>(n, d, e). nat (2 ^ 52 * d - n))") auto

function mantissa_down :: "int \<Rightarrow> int \<Rightarrow> int \<Rightarrow> int \<times> int" where
  "mantissa_down n d e =
     (if n \<le> 0 \<or> d \<le> 0 then (d, e)
      else if 2 ^ 53 * d \<le> n then mantissa_down n (2 * d) (e + 1)
      else (d, e))"
  by pat_completeness auto
termination
  by (relation "measure (\<lambda>(n, d, e). nat (n - 2 ^ 52 * d))") auto

definition round_half_even :: "int \<Rightarrow> int \<Rightarrow> int" where
  "round_half_even n d =
     (if 2 * (n mod d) < d then n div d
      else if d < 2 * (n mod d) then n div d + 1
      else if even (n div d) then n div d
      else n div d + 1)"

definition scale2 :: "int \<Rightarrow> int \<Rightarrow> rat" where
  "scale2 m e = (if 0 \<le> e then of_int (m * 2 ^ nat e) else of_int m / of_int (2 ^ nat (- e)))"

definition double_pos :: "int \<Rightarrow> int \<Rightarrow> rat" where
  "double_pos n d =
     (case mantissa_up n d 0 of
        (n1, e1) \<Rightarrow>
          (case mantissa_down n1 d e1 of
             (d2, e2) \<Rightarrow> scale2 (round_half_even n1 d2) e2))"

definition double :: "rat \<Rightarrow> rat" where
  "double x =
     (if x = 0 then 0
      else (case quotient_of \<bar>x\<bar> of (n, d) \<Rightarrow>
              (if x < 0 then - double_pos n d else double_pos n d)))"

text \<open>
  \<^verbatim>\<open>parseInt(x, 10)\<close> of a number converts the number to its string and reads the leading
  decimal digits. The string of a double is the shortest decimal that rounds to it. A
  double from the double of \<open>10\<^sup>-\<^sup>6\<close> on (and below \<open>10\<^sup>2\<^sup>1\<close>, which the quotients of the
  model are) is printed in positional notation, so the digits read are its integer part. A
  smaller non-zero double is printed in exponent notation (such as \<^verbatim>\<open>5e-7\<close>), so what is
  read is the first digit of the shortest decimal: the first significant digit of the
  double, or the next digit when the one-digit decimal with that next digit rounds to the
  double.
\<close>

function first_digit :: "int \<Rightarrow> int \<Rightarrow> nat \<Rightarrow> int \<times> nat" where
  "first_digit n d j =
     (if n \<le> 0 \<or> d \<le> 0 then (0, j)
      else if d \<le> n then (n div d, j)
      else first_digit (10 * n) d (Suc j))"
  by pat_completeness auto
termination
  by (relation "measure (\<lambda>(n, d, j). nat (d - n))") auto

definition printed_digit :: "rat \<Rightarrow> int" where
  "printed_digit v =
     (case quotient_of v of (n, d) \<Rightarrow>
        (case first_digit n d 0 of
           (dg, j) \<Rightarrow>
             (if double (of_int (dg + 1) / of_int (10 ^ j)) = v
              then (if dg = 9 then 1 else dg + 1)
              else dg)))"

definition parseInt :: "rat \<Rightarrow> int" where
  "parseInt x =
     (if x = 0 \<or> double (1 / 1000000) \<le> \<bar>x\<bar>
      then (if x < 0 then - \<lfloor>- x\<rfloor> else \<lfloor>x\<rfloor>)
      else (if x < 0 then - printed_digit \<bar>x\<bar> else printed_digit \<bar>x\<bar>))"

text \<open>\<^verbatim>\<open>a || b\<close> on numbers: \<^verbatim>\<open>b\<close> when \<^verbatim>\<open>a\<close> is zero.\<close>

definition js_or :: "int \<Rightarrow> int \<Rightarrow> int" where
  "js_or a b = (if a = 0 then b else a)"

section \<open>The chunk of a frame\<close>

text \<open>The first lines of \<^verbatim>\<open>FrameData.prototype.data.implementation\<close>.\<close>

definition chunk_start :: "FrameData \<Rightarrow> int \<Rightarrow> int" where
  "chunk_start this csize =
     max (startFrame this)
         (parseInt (double (of_int (number this) / of_int csize)) * csize)"

definition chunk_stop :: "FrameData \<Rightarrow> int \<Rightarrow> int" where
  "chunk_stop this csize =
     min (stopFrame this)
         ((parseInt (double (of_int (number this) / of_int csize)) + 1) * csize - 1)"

definition chunk_number :: "FrameData \<Rightarrow> int \<Rightarrow> int" where
  "chunk_number this csize = Math_floor (of_int (number this) / of_int csize)"

section \<open>The callbacks of a chunk request\<close>

definition reject_by_frameNumber :: "callback \<Rightarrow> effect" where
  "reject_by_frameNumber r = Reject (promise r) (ByFrameNumber (frameNumber r))"

text \<open>
  The loop of \<^verbatim>\<open>onDecodeAll\<close>: \<open>i\<close> runs from the last index down to 0; a matching entry is
  spliced out of the array and then resolved with \<^verbatim>\<open>provider.frame(callback.frameNumber)\<close>.
  The first argument is \<open>i + 1\<close>.
\<close>

fun resolve_matching :: "nat \<Rightarrow> int \<Rightarrow> callback list \<Rightarrow> callback list \<times> effect list" where
  "resolve_matching 0 n callbackArray = (callbackArray, [])"
| "resolve_matching (Suc i) n callbackArray =
     (if frameNumber (callbackArray ! i) = n
      then (case resolve_matching i n (take i callbackArray @ drop (Suc i) callbackArray) of
              (rest, es) \<Rightarrow>
                (rest,
                 Resolve (promise (callbackArray ! i))
                   (ProviderFrame (frameNumber (callbackArray ! i))) # es))
      else resolve_matching i n callbackArray)"

definition onDecodeAll_call :: "closure \<Rightarrow> int \<Rightarrow> task_cache \<Rightarrow> task_cache \<times> effect list" where
  "onDecodeAll_call cl n c =
     (case activeChunkRequest c of
        None \<Rightarrow> (c, [])
      | Some a \<Rightarrow>
          if cl_chunkNumber cl = chunkNumber a
          then (case resolve_matching (length (callbacks a)) n (callbacks a) of
                  (callbackArray, es) \<Rightarrow>
                    (if length callbackArray = 0
                     then c\<lparr>activeChunkRequest := None\<rparr>
                     else c\<lparr>activeChunkRequest := Some (a\<lparr>callbacks := callbackArray\<rparr>)\<rparr>,
                     es))
          else (c, []))"

definition rejectRequestAll_call :: "closure \<Rightarrow> task_cache \<Rightarrow> task_cache \<times> effect list" where
  "rejectRequestAll_call cl c =
     (case activeChunkRequest c of
        None \<Rightarrow> (c, [])
      | Some a \<Rightarrow>
          if cl_chunkNumber cl = chunkNumber a
          then (c\<lparr>activeChunkRequest := None\<rparr>, map reject_by_frameNumber (callbacks a))
          else (c, []))"

section \<open>Fetching a chunk\<close>

text \<open>
  \<^verbatim>\<open>makeActiveRequest\<close> is a closure of the call of \<^verbatim>\<open>data\<close> that made it: it captures the
  task id and the \<^verbatim>\<open>reject\<close> of that call's promise. It is only called right after the
  active request has been set; without one the property access would throw before the
  server is called.
\<close>

definition makeActiveRequest :: "task_id \<Rightarrow> task_cache \<Rightarrow> task_cache \<times> effect list" where
  "makeActiveRequest t taskDataCache =
     (case activeChunkRequest taskDataCache of
        None \<Rightarrow> (taskDataCache, [])
      | Some activeChunk \<Rightarrow>
          (taskDataCache\<lparr>activeChunkRequest :=
             Some (activeChunk\<lparr>request := Some (t, chunkNumber activeChunk)\<rparr>)\<rparr>,
           [GetData t (chunkNumber activeChunk)]))"

text \<open>
  The three handlers chained on the promise of \<^verbatim>\<open>getData\<close>. They are separate reactions:
  the \<^verbatim>\<open>then\<close> handler runs when the fetch is fulfilled, the \<^verbatim>\<open>catch\<close> handler when the
  fetch is rejected or the \<^verbatim>\<open>then\<close> handler has thrown, the \<^verbatim>\<open>finally\<close> handler after
  either. The \<^verbatim>\<open>then\<close> handler throws a \<^verbatim>\<open>TypeError\<close> at its first statement when there is
  no active request.
\<close>

definition wrap_exception :: "js_error \<Rightarrow> js_error" where
  "wrap_exception exception =
     (if instanceof_Exception exception then exception else Exception (message exception))"

definition getData_then :: "task_id \<Rightarrow> chunk \<Rightarrow> task_cache \<Rightarrow> js_error + task_cache \<times> effect list" where
  "getData_then t chunk taskDataCache =
     (case activeChunkRequest taskDataCache of
        None \<Rightarrow> Inl TypeError
      | Some a \<Rightarrow>
          Inr (taskDataCache\<lparr>activeChunkRequest := Some (a\<lparr>completed := True\<rparr>)\<rparr>,
               [RequestDecodeBlock t (Some chunk) (start a) (stop a)
                  (onDecodeAll a) (rejectRequestAll a)]))"

definition getData_catch :: "promise_id \<Rightarrow> js_error \<Rightarrow> effect list" where
  "getData_catch p exception = [Reject p (ByError (wrap_exception exception))]"

definition getData_finally :: "task_id \<Rightarrow> task_cache \<Rightarrow> task_cache \<times> effect list" where
  "getData_finally t taskDataCache =
     (case nextChunkRequest taskDataCache of
        None \<Rightarrow> (taskDataCache, [])
      | Some nxt \<Rightarrow>
          (case makeActiveRequest t
                  (taskDataCache\<lparr>activeChunkRequest := Some nxt, nextChunkRequest := None\<rparr>) of
             (c, es) \<Rightarrow>
               (c,
                (case activeChunkRequest taskDataCache of
                   None \<Rightarrow> []
                 | Some a \<Rightarrow> map reject_by_frameNumber (callbacks a)) @ es)))"

text \<open>
  The reaction to a fulfilled fetch: the \<^verbatim>\<open>then\<close> handler; when it throws, nothing has
  changed and the error waits for the \<^verbatim>\<open>catch\<close> handler.
\<close>

definition getData_fulfilled :: "task_id \<Rightarrow> chunk \<Rightarrow> task_cache \<Rightarrow> task_cache \<times> effect list" where
  "getData_fulfilled t chunk taskDataCache =
     (case getData_then t chunk taskDataCache of
        Inl exception \<Rightarrow> (taskDataCache, [])
      | Inr r \<Rightarrow> r)"

section \<open>Requesting the data of a frame\<close>

text \<open>
  What the provider answers to one call of \<^verbatim>\<open>data\<close>: \<^verbatim>\<open>provider.frame(this.number)\<close> gives
  a decoded frame, \<^verbatim>\<open>null\<close>, or fails; \<^verbatim>\<open>provider.isChunkCached(start, stop)\<close> gives a
  boolean. Both are inputs of the model.
\<close>

datatype frame_lookup = Found image | Null | LookupFailed js_error

definition new_chunk_request :: "FrameData \<Rightarrow> promise_id \<Rightarrow> int \<Rightarrow> chunk_request" where
  "new_chunk_request this p csize =
     \<lparr>request = None,
      chunkNumber = chunk_number this csize,
      start = chunk_start this csize,
      stop = chunk_stop this csize,
      onDecodeAll = Closure (tid this) (chunk_number this csize),
      rejectRequestAll = Closure (tid this) (chunk_number this csize),
      completed = False,
      callbacks = [\<lparr>promise = p, frameNumber = number this\<rparr>]\<rparr>"

definition push_callback :: "FrameData \<Rightarrow> promise_id \<Rightarrow> chunk_request \<Rightarrow> chunk_request" where
  "push_callback this p a =
     a\<lparr>callbacks := callbacks a @ [\<lparr>promise = p, frameNumber = number this\<rparr>]\<rparr>"

text \<open>
  The body of the callback of \<^verbatim>\<open>provider.frame(this.number).then\<close> for a frame that is not
  decoded (\<^verbatim>\<open>frame === null\<close>), after \<^verbatim>\<open>onServerRequest()\<close>. The result is \<open>Inl\<close> when the
  body throws. The \<^verbatim>\<open>rejectRequestAll\<close> stored on the active request is a closure of a call
  of \<^verbatim>\<open>data\<close> for the same task, so it works on the same cache object.
\<close>

definition on_null_frame ::
  "FrameData \<Rightarrow> promise_id \<Rightarrow> bool \<Rightarrow> task_cache \<Rightarrow> js_error + task_cache \<times> effect list" where
  "on_null_frame this p isChunkCached c =
     (if \<not> isChunkCached
      then (case activeChunkRequest c of
              None \<Rightarrow>
                (case makeActiveRequest (tid this)
                        (c\<lparr>activeChunkRequest :=
                             Some (new_chunk_request this p (chunkSize c))\<rparr>) of
                   (c', es) \<Rightarrow> Inr (c', es))
            | Some a \<Rightarrow>
                if completed a
                then (case rejectRequestAll_call (rejectRequestAll a) c of
                        (c1, es1) \<Rightarrow>
                          (case makeActiveRequest (tid this)
                                  (c1\<lparr>activeChunkRequest :=
                                        Some (new_chunk_request this p (chunkSize c))\<rparr>) of
                             (c', es) \<Rightarrow> Inr (c', es1 @ es)))
                else if chunkNumber a = chunk_number this (chunkSize c)
                then Inr (c\<lparr>activeChunkRequest := Some (push_callback this p a)\<rparr>, [])
                else Inr (c\<lparr>nextChunkRequest :=
                              Some (new_chunk_request this p (chunkSize c))\<rparr>,
                          (case nextChunkRequest c of
                             None \<Rightarrow> []
                           | Some nxt \<Rightarrow> map reject_by_frameNumber (callbacks nxt))))
      else (case activeChunkRequest c of
              None \<Rightarrow> Inl TypeError
            | Some a \<Rightarrow>
                Inr (c\<lparr>activeChunkRequest := Some (push_callback this p a)\<rparr>,
                     [RequestDecodeBlock (tid this) None
                        (chunk_start this (chunkSize c)) (chunk_stop this (chunkSize c))
                        (Closure (tid this) (chunk_number this (chunkSize c)))
                        (Closure (tid this) (chunk_number this (chunkSize c)))])))"

text \<open>The browser branch of \<^verbatim>\<open>FrameData.prototype.data.implementation\<close>, on one task cache.\<close>

definition data_browser ::
  "FrameData \<Rightarrow> promise_id \<Rightarrow> frame_lookup \<Rightarrow> bool \<Rightarrow> task_cache \<Rightarrow> task_cache \<times> effect list" where
  "data_browser this p frame isChunkCached c =
     (case frame of
        LookupFailed exception \<Rightarrow> (c, [Reject p (ByError (wrap_exception exception))])
      | Found img \<Rightarrow> (c, [Resolve p (Decoded img)])
      | Null \<Rightarrow>
          (case on_null_frame this p isChunkCached c of
             Inl exception \<Rightarrow>
               (c, [OnServerRequest p, Reject p (ByError (wrap_exception exception))])
           | Inr (c', es) \<Rightarrow> (c', OnServerRequest p # es)))"

section \<open>The module's state and its steps\<close>

text \<open>
  A handler works on the cache object of its task and adds its effects to the trace. A
  handler whose task has no cache object throws at its first access and changes nothing;
  cache objects are never removed, so this does not happen to a handler the module has
  installed.
\<close>

definition on_task ::
  "task_id \<Rightarrow> (task_cache \<Rightarrow> task_cache \<times> effect list) \<Rightarrow> world \<Rightarrow> world" where
  "on_task t h w =
     (case frameDataCache w t of
        None \<Rightarrow> w
      | Some c \<Rightarrow>
          (case h c of
             (c', es) \<Rightarrow> \<lparr>frameDataCache = (frameDataCache w)(t \<mapsto> c'), trace = trace w @ es\<rparr>))"

text \<open>
  \<^verbatim>\<open>FrameData.prototype.data.implementation\<close>, for the promise \<open>p\<close> it returns. Without a
  cache object for the task the first line throws inside the promise's executor, which
  rejects the promise.
\<close>

definition data_implementation ::
  "runtime \<Rightarrow> FrameData \<Rightarrow> promise_id \<Rightarrow> frame_lookup \<Rightarrow> bool \<Rightarrow> world \<Rightarrow> world" where
  "data_implementation rt this p frame isChunkCached w =
     (case frameDataCache w (tid this) of
        None \<Rightarrow> w\<lparr>trace := trace w @ [Reject p (ByError TypeError)]\<rparr>
      | Some c \<Rightarrow>
          if isNode rt then w\<lparr>trace := trace w @ [Resolve p DummyData]\<rparr>
          else if isBrowser rt then on_task (tid this) (data_browser this p frame isChunkCached) w
          else w)"

text \<open>
  The events that drive the module: a call of \<^verbatim>\<open>data\<close> whose frame lookup has answered;
  for the fetch started by the \<^verbatim>\<open>makeActiveRequest\<close> of the promise \<open>p\<close>, its fulfilment
  (the \<^verbatim>\<open>then\<close> handler runs), its rejection (the \<^verbatim>\<open>catch\<close> handler runs), the \<^verbatim>\<open>catch\<close>
  handler running for an error thrown by the \<^verbatim>\<open>then\<close> handler, and the \<^verbatim>\<open>finally\<close> handler;
  and the provider calling one of the two closures it was handed.
\<close>

datatype event =
    Data FrameData promise_id frame_lookup bool
  | Fulfilled task_id promise_id chunk
  | Rejected task_id promise_id js_error
  | Caught task_id promise_id js_error
  | Finally task_id promise_id
  | DecodeProgress closure int
  | DecodeFailure closure

fun step :: "runtime \<Rightarrow> world \<Rightarrow> event \<Rightarrow> world" where
  "step rt w (Data this p frame isChunkCached) = data_implementation rt this p frame isChunkCached w"
| "step rt w (Fulfilled t p chunk) = on_task t (getData_fulfilled t chunk) w"
| "step rt w (Rejected t p exception) = w\<lparr>trace := trace w @ getData_catch p exception\<rparr>"
| "step rt w (Caught t p exception) = w\<lparr>trace := trace w @ getData_catch p exception\<rparr>"
| "step rt w (Finally t p) = on_task t (getData_finally t) w"
| "step rt w (DecodeProgress cl n) = on_task (cl_tid cl) (onDecodeAll_call cl n) w"
| "step rt w (DecodeFailure cl) = on_task (cl_tid cl) (rejectRequestAll_call cl) w"

definition run :: "runtime \<Rightarrow> world \<Rightarrow> event list \<Rightarrow> world" where
  "run rt w evs = foldl (step rt) w evs"

section \<open>getFrame and getRanges\<close>

datatype getFrame_error =
    ArgumentError_meta int
  | ArgumentError_mode string
  | TypeError_size
  | getMeta_rejected js_error

fun is_ArgumentError :: "getFrame_error \<Rightarrow> bool" where
  "is_ArgumentError (ArgumentError_meta frame) = True"
| "is_ArgumentError (ArgumentError_mode mode) = True"
| "is_ArgumentError TypeError_size = False"
| "is_ArgumentError (getMeta_rejected e) = False"

text \<open>
  \<^verbatim>\<open>getFrameSize\<close>: the result \<open>Inr None\<close> is \<^verbatim>\<open>undefined\<close>, which an array gives for an
  index it does not have.
\<close>

definition getFrameSize :: "string \<Rightarrow> int \<Rightarrow> frame_size list \<Rightarrow> getFrame_error + frame_size option" where
  "getFrameSize mode frame m =
     (if mode = ''interpolation''
      then Inr (case m of [] \<Rightarrow> None | sz # rest \<Rightarrow> Some sz)
      else if mode = ''annotation''
      then (if int (length m) \<le> frame then Inl (ArgumentError_meta frame)
            else Inr (if frame < 0 then None else Some (m ! nat frame)))
      else Inl (ArgumentError_mode mode))"

text \<open>
  The size of the cache of decoded blocks. JavaScript divides in floating point; the
  model divides exactly. For a positive integer chunk size the two floors agree: the exact
  quotient \<open>2\<^sup>1\<^sup>9 / (2025 * chunkSize)\<close> is never an integer and, where it is above 1,
  lies at least \<open>1 / (2025 * 258)\<close> away from one, far more than the rounding of four
  divisions; \<open>500 / chunkSize\<close> is one division, exact or at least \<open>1 / 500\<close> away from
  an integer.
\<close>

definition budget :: "BlockType \<Rightarrow> int \<Rightarrow> int" where
  "budget bt csize =
     (if bt = MP4VIDEO
      then js_or (Math_floor (2147483648 / 1920 / 1080 / 4 / of_int csize)) 1
      else js_or (Math_floor (500 / of_int csize)) 1)"

definition new_task_cache :: "int \<Rightarrow> string \<Rightarrow> int \<Rightarrow> frame_size list \<Rightarrow> task_cache" where
  "new_task_cache csize chunkType frame m =
     (let bt = (if chunkType = ''video'' then MP4VIDEO else ARCHIVE)
      in \<lparr>meta = m,
          chunkSize = csize,
          provider = \<lparr>blockType = bt, blockSize = csize, cachedBlockCount = 9,
                      decodedBlocksCacheSize_arg = budget bt csize,
                      maxWorkerThreadCount = 1, renderSize = None, cachedFrames = []\<rparr>,
          lastFrameRequest = frame,
          decodedBlocksCacheSize = budget bt csize,
          activeChunkRequest = None,
          nextChunkRequest = None\<rparr>)"

text \<open>
  \<^verbatim>\<open>getFrame\<close>. The argument \<open>getMeta\<close> is the answer of the server to
  \<^verbatim>\<open>serverProxy.frames.getMeta(taskID)\<close>, which is asked only for a task that has no cache
  object yet. The result pairs what the call returns or throws with the table afterwards.
\<close>

definition getFrame ::
  "task_id \<Rightarrow> int \<Rightarrow> string \<Rightarrow> string \<Rightarrow> int \<Rightarrow> int \<Rightarrow> int \<Rightarrow> js_error + frame_size list \<Rightarrow>
   registry \<Rightarrow> (getFrame_error + FrameData) \<times> registry" where
  "getFrame taskID csize chunkType mode frame startF stopF getMeta cache =
     (case (case cache taskID of
              Some c \<Rightarrow> Inr (c, cache)
            | None \<Rightarrow>
                (case getMeta of
                   Inl e \<Rightarrow> Inl e
                 | Inr m \<Rightarrow>
                     Inr (new_task_cache csize chunkType frame m,
                          cache(taskID \<mapsto> new_task_cache csize chunkType frame m)))) of
        Inl e \<Rightarrow> (Inl (getMeta_rejected e), cache)
      | Inr (c, cache1) \<Rightarrow>
          (case getFrameSize mode frame (meta c) of
             Inl e \<Rightarrow> (Inl e, cache1)
           | Inr None \<Rightarrow> (Inl TypeError_size, cache1(taskID \<mapsto> c\<lparr>lastFrameRequest := frame\<rparr>))
           | Inr (Some sz) \<Rightarrow>
               (Inr \<lparr>width = size_width sz, height = size_height sz, tid = taskID,
                     number = frame, startFrame = startF, stopFrame = stopF\<rparr>,
                cache1(taskID \<mapsto>
                  c\<lparr>lastFrameRequest := frame,
                    provider := (provider c)\<lparr>renderSize :=
                                  Some (size_width sz, size_height sz)\<rparr>\<rparr>))))"

definition getRanges :: "task_id \<Rightarrow> registry \<Rightarrow> (int \<times> int) list \<times> registry" where
  "getRanges taskID cache =
     (case cache taskID of
        None \<Rightarrow> ([], cache)
      | Some c \<Rightarrow> (cachedFrames (provider c), cache))"

section \<open>The budget as the specification words it\<close>

text \<open>
  The decoded-frame budget in the words of the specification: the floor of
  \<open>2\<^sup>3\<^sup>1 / (1920 * 1080 * 4 * chunkSize)\<close> for the video chunk type, the floor of
  \<open>500 / chunkSize\<close> for the other, and at least 1.
\<close>

definition budget_spec :: "bool \<Rightarrow> int \<Rightarrow> int" where
  "budget_spec video csize =
     max 1 (if video then 2 ^ 31 div (1920 * 1080 * 4 * csize) else 500 div csize)"

section \<open>Reading the state and the trace\<close>

definition activeSlot :: "world \<Rightarrow> task_id \<Rightarrow> chunk_request option" where
  "activeSlot w t = Option.bind (frameDataCache w t) activeChunkRequest"

definition nextSlot :: "world \<Rightarrow> task_id \<Rightarrow> chunk_request option" where
  "nextSlot w t = Option.bind (frameDataCache w t) nextChunkRequest"

text \<open>The chunk numbers of the calls of \<^verbatim>\<open>getData\<close> for a task, in the order of the calls.\<close>

fun fetches :: "task_id \<Rightarrow> effect list \<Rightarrow> int list" where
  "fetches t [] = []"
| "fetches t (GetData t' k # es) = (if t' = t then k # fetches t es else fetches t es)"
| "fetches t (e # es) = fetches t es"

text \<open>An effect settles the promise \<open>q\<close> when it calls its \<^verbatim>\<open>resolve\<close> or its \<^verbatim>\<open>reject\<close>.\<close>

fun settles :: "promise_id \<Rightarrow> effect \<Rightarrow> bool" where
  "settles q (Resolve p v) = (p = q)"
| "settles q (Reject p r) = (p = q)"
| "settles q e = False"

definition settlements :: "promise_id \<Rightarrow> effect list \<Rightarrow> nat" where
  "settlements q es = length (filter (settles q) es)"

definition resolve_by_frame :: "callback \<Rightarrow> effect" where
  "resolve_by_frame r = Resolve (promise r) (ProviderFrame (frameNumber r))"


text \<open>
  A request made for task \<open>t\<close> carries the two closures of the call that made it, and
  these hold the chunk number of the request.
\<close>

definition request_of_task :: "task_id \<Rightarrow> chunk_request \<Rightarrow> bool" where
  "request_of_task t r =
     (onDecodeAll r = Closure t (chunkNumber r) \<and> rejectRequestAll r = Closure t (chunkNumber r))"

definition cache_of_task :: "task_id \<Rightarrow> task_cache \<Rightarrow> bool" where
  "cache_of_task t c =
     ((case activeChunkRequest c of None \<Rightarrow> True | Some a \<Rightarrow> request_of_task t a)
      \<and> (case nextChunkRequest c of None \<Rightarrow> True | Some nxt \<Rightarrow> request_of_task t nxt \<and> request nxt = None))"

text \<open>A call of \<^verbatim>\<open>data\<close> for a frame that is not decoded and whose chunk is not cached.\<close>

definition miss :: "FrameData \<times> promise_id \<Rightarrow> event" where
  "miss r = Data (fst r) (snd r) Null False"

definition waiter :: "FrameData \<times> promise_id \<Rightarrow> callback" where
  "waiter r = \<lparr>promise = snd r, frameNumber = number (fst r)\<rparr>"

section \<open>A sample task\<close>

text \<open>Task 1 with frames 0 to 99 in chunks of 10, run in a browser.\<close>

definition browser :: runtime where
  "browser = \<lparr>isNode = False, isBrowser = True\<rparr>"

definition sample_frame :: "int \<Rightarrow> FrameData" where
  "sample_frame n =
     \<lparr>width = 640, height = 480, tid = 1, number = n, startFrame = 0, stopFrame = 99\<rparr>"

definition sample_cache :: task_cache where
  "sample_cache = new_task_cache 10 ''video'' 3 [\<lparr>size_width = 640, size_height = 480\<rparr>]"

definition sample_world :: world where
  "sample_world = \<lparr>frameDataCache = [1 \<mapsto> sample_cache], trace = []\<rparr>"

text \<open>
  States of the sample task: frames 3 and 7 requested and chunk 0 being fetched; the
  same with the fetch answered and the decoding under way; the same with the fetch
  failed; frame 3 requested and then frame 15, which waits in the next request.
\<close>

definition sample_fetching :: world where
  "sample_fetching = run browser sample_world [miss (sample_frame 3, 1), miss (sample_frame 7, 2)]"

definition sample_decoding :: world where
  "sample_decoding = run browser sample_fetching [Fulfilled 1 1 42, Finally 1 1]"

definition sample_failed :: world where
  "sample_failed =
     run browser sample_fetching [Rejected 1 1 (ForeignError ''Network Error''), Finally 1 1]"

definition sample_queued :: world where
  "sample_queued = run browser sample_world [miss (sample_frame 3, 1), miss (sample_frame 15, 2)]"

definition sample_request :: "bool \<Rightarrow> callback list \<Rightarrow> chunk_request" where
  "sample_request done cbs =
     \<lparr>request = Some (1, 0), chunkNumber = 0, start = 0, stop = 9,
      onDecodeAll = Closure 1 0, rejectRequestAll = Closure 1 0,
      completed = done, callbacks = cbs\<rparr>"

text \<open>
  Every cache object of the table holds requests of its own task, and a request that
  waits as the next one has not started its fetch.
\<close>

definition world_ok :: "world \<Rightarrow> bool" where
  "world_ok w = (\<forall>t c. frameDataCache w t = Some c \<longrightarrow> cache_of_task t c)"

text \<open>
  The events that settle a fetch of task \<open>t\<close>, and the events that run a \<^verbatim>\<open>finally\<close>
  handler of task \<open>t\<close>.
\<close>

fun settlement_of :: "task_id \<Rightarrow> event \<Rightarrow> bool" where
  "settlement_of t (Fulfilled t' p chunk) = (t' = t)"
| "settlement_of t (Rejected t' p exception) = (t' = t)"
| "settlement_of t e = False"


text \<open>What was added to the trace between a state and a later one.\<close>

definition issued :: "world \<Rightarrow> world \<Rightarrow> effect list" where
  "issued w w' = drop (length (trace w)) (trace w')"

section \<open>Fetches in flight\<close>

text \<open>
  The number \<open>k\<close> of fetches of a task that are in flight is not part of the module's
  state; it is counted along a run. An event starts as many fetches as it makes calls of
  \<^verbatim>\<open>getData\<close> for the task, and the settlement of a fetch of the task ends one.
\<close>

definition started :: "runtime \<Rightarrow> task_id \<Rightarrow> world \<Rightarrow> event \<Rightarrow> nat" where
  "started rt t w e = length (fetches t (issued w (step rt w e)))"

definition in_flight_after :: "runtime \<Rightarrow> task_id \<Rightarrow> world \<Rightarrow> nat \<Rightarrow> event \<Rightarrow> nat" where
  "in_flight_after rt t w k e = (if settlement_of t e then k - 1 else k) + started rt t w e"

fun in_flight :: "runtime \<Rightarrow> task_id \<Rightarrow> world \<Rightarrow> nat \<Rightarrow> event list \<Rightarrow> nat" where
  "in_flight rt t w k [] = k"
| "in_flight rt t w k (e # evs) = in_flight rt t (step rt w e) (in_flight_after rt t w k e) evs"

section \<open>Properties of the numbers\<close>

lemma Math_floor_quotient: "Math_floor (of_int a / of_int b) = a div b"
  by (simp add: Math_floor_def floor_divide_of_int_eq)

lemma video_quotient:
  "(2147483648 / 1920 / 1080 / 4 / of_int c :: rat) = of_int 2147483648 / of_int (1920 * 1080 * 4 * c)"
  by simp

lemma archive_quotient: "(500 / of_int c :: rat) = of_int 500 / of_int c"
  by simp

lemma budget_video: "0 < c \<Longrightarrow> budget MP4VIDEO c = budget_spec True c"
proof -
  assume c: "0 < c"
  have "0 \<le> (2147483648::int) div (1920 * 1080 * 4 * c)"
    using c by (intro pos_imp_zdiv_nonneg_iff[THEN iffD2]) auto
  then show ?thesis
    unfolding budget_def budget_spec_def js_or_def video_quotient Math_floor_quotient
    by simp
qed

lemma budget_archive: "0 < c \<Longrightarrow> budget ARCHIVE c = budget_spec False c"
proof -
  assume c: "0 < c"
  have "0 \<le> (500::int) div c"
    using c by (intro pos_imp_zdiv_nonneg_iff[THEN iffD2]) auto
  then show ?thesis
    unfolding budget_def budget_spec_def js_or_def archive_quotient Math_floor_quotient
    by simp
qed

lemma chunk_number_div: "chunk_number this csize = number this div csize"
  by (simp add: chunk_number_def Math_floor_quotient)

text \<open>The chunk bounds of the frames of the sample task, whose chunk size is 10.\<close>

lemma sample_chunks:
  "chunk_start (sample_frame 3) 10 = 0" "chunk_stop (sample_frame 3) 10 = 9"
  "chunk_start (sample_frame 5) 10 = 0" "chunk_stop (sample_frame 5) 10 = 9"
  "chunk_start (sample_frame 7) 10 = 0" "chunk_stop (sample_frame 7) 10 = 9"
  "chunk_start (sample_frame 15) 10 = 10" "chunk_stop (sample_frame 15) 10 = 19"
  "chunk_start (sample_frame 25) 10 = 20" "chunk_stop (sample_frame 25) 10 = 29"
  by code_simp+

lemma sample_frame_fields:
  "tid (sample_frame n) = 1" "number (sample_frame n) = n"
  "startFrame (sample_frame n) = 0" "stopFrame (sample_frame n) = 99"
  by (simp_all add: sample_frame_def)

text \<open>
  Claim C8. The chunk number is the floor of \<open>f / chunkSize\<close>, but the bounds of the chunk
  are computed with \<^verbatim>\<open>parseInt\<close>, which reads the printed quotient: the two agree for the
  frames of the sample task (\<open>sample_chunks\<close>), but a non-zero quotient below \<open>10\<^sup>-\<^sup>6\<close> is
  printed in exponent notation. For frame 1 of a task with frames 0 to 10 and chunk size
  2000000 the chunk number is 0 while the start of the chunk comes out as 10000000, where
  the claim gives \<open>max 0 (0 * 2000000) = 0\<close>.
\<close>

theorem chunk_start_tiny_quotient:
  "chunk_number \<lparr>width = 640, height = 480, tid = 1, number = 1, startFrame = 0, stopFrame = 10\<rparr> 2000000 = 0
   \<and> chunk_start \<lparr>width = 640, height = 480, tid = 1, number = 1, startFrame = 0, stopFrame = 10\<rparr> 2000000 = 10000000
   \<and> chunk_stop \<lparr>width = 640, height = 480, tid = 1, number = 1, startFrame = 0, stopFrame = 10\<rparr> 2000000 = 10"
  by code_simp

section \<open>getFrame and getRanges\<close>

lemma getFrame_creates:
  "cache taskID = None \<Longrightarrow>
   \<exists>c. snd (getFrame taskID csize chunkType mode frame startF stopF (Inr m) cache) taskID = Some c
     \<and> decodedBlocksCacheSize c = budget (if chunkType = ''video'' then MP4VIDEO else ARCHIVE) csize
     \<and> decodedBlocksCacheSize_arg (provider c) = decodedBlocksCacheSize c"
  by (simp add: getFrame_def new_task_cache_def Let_def split: sum.splits option.splits)

text \<open>
  Claim C7. For a positive chunk size, the first \<^verbatim>\<open>getFrame\<close> of a task stores, and hands to
  the provider, the decoded-frame budget of the specification: the floor of
  \<open>2\<^sup>3\<^sup>1 / (1920 * 1080 * 4 * chunkSize)\<close> for the video chunk type and the floor of
  \<open>500 / chunkSize\<close> for any other chunk type, with 0 replaced by 1. For the chunk size 9
  the archive budget computed by the code is 55.
\<close>

theorem budget_formula:
  "0 < csize \<Longrightarrow> cache taskID = None \<Longrightarrow>
   (\<exists>c. snd (getFrame taskID csize chunkType mode frame startF stopF (Inr m) cache) taskID = Some c
     \<and> decodedBlocksCacheSize c = budget_spec (chunkType = ''video'') csize
     \<and> decodedBlocksCacheSize_arg (provider c) = budget_spec (chunkType = ''video'') csize)
   \<and> budget MP4VIDEO csize = budget_spec True csize
   \<and> budget ARCHIVE csize = budget_spec False csize
   \<and> budget ARCHIVE 9 = 55"
proof -
  assume c: "0 < csize" and n: "cache taskID = None"
  have b: "budget (if chunkType = ''video'' then MP4VIDEO else ARCHIVE) csize
         = budget_spec (chunkType = ''video'') csize"
    using c by (simp add: budget_video budget_archive)
  have "budget ARCHIVE 9 = 55"
    by (simp add: budget_archive budget_spec_def)
  with getFrame_creates[of cache taskID csize chunkType mode frame startF stopF m] n b c
  show ?thesis by (auto simp: budget_video budget_archive)
qed

theorem budget_formula_witness:
  "(0::int) < 9 \<and> (Map.empty :: registry) 1 = None \<and>
   (\<exists>c. snd (getFrame 1 9 ''video'' ''interpolation'' 0 0 99
                 (Inr [\<lparr>size_width = 640, size_height = 480\<rparr>]) Map.empty) 1 = Some c
     \<and> decodedBlocksCacheSize c = 28
     \<and> decodedBlocksCacheSize_arg (provider c) = 28)
   \<and> budget MP4VIDEO 9 = 28 \<and> budget ARCHIVE 9 = 55"
  using budget_formula [of 9 Map.empty 1 "''video''" "''interpolation''" 0 0 99
      "[\<lparr>size_width = 640, size_height = 480\<rparr>]"]
  by (simp add: budget_spec_def)

text \<open>
  Claim C9. \<^verbatim>\<open>getRanges\<close> leaves the table of caches as it is; for a task the table has never
  seen it returns the empty sequence, and for any other task it returns the report of the
  provider's \<^verbatim>\<open>cachedFrames\<close>.
\<close>

theorem getRanges_report:
  "snd (getRanges taskID cache) = cache
   \<and> (taskID \<notin> dom cache \<longrightarrow> fst (getRanges taskID cache) = [])
   \<and> (\<forall>c. cache taskID = Some c \<longrightarrow> fst (getRanges taskID cache) = cachedFrames (provider c))"
  by (auto simp: getRanges_def split: option.splits)

theorem getRanges_report_witness:
  "(1::nat) \<notin> dom (Map.empty :: registry)
   \<and> getRanges 1 Map.empty = ([], Map.empty)
   \<and> [1 \<mapsto> new_task_cache 9 ''video'' 0 []\<lparr>provider := (provider (new_task_cache 9 ''video'' 0 []))\<lparr>cachedFrames := [(0, 8)]\<rparr>\<rparr>] 1
       = Some (new_task_cache 9 ''video'' 0 []\<lparr>provider := (provider (new_task_cache 9 ''video'' 0 []))\<lparr>cachedFrames := [(0, 8)]\<rparr>\<rparr>)
   \<and> fst (getRanges 1 [1 \<mapsto> new_task_cache 9 ''video'' 0 []\<lparr>provider := (provider (new_task_cache 9 ''video'' 0 []))\<lparr>cachedFrames := [(0, 8)]\<rparr>\<rparr>]) = [(0, 8)]"
  using getRanges_report [of 1 Map.empty]
    getRanges_report [of 1 "[1 \<mapsto> new_task_cache 9 ''video'' 0 []\<lparr>provider := (provider (new_task_cache 9 ''video'' 0 []))\<lparr>cachedFrames := [(0, 8)]\<rparr>\<rparr>]"]
  by (simp add: prod_eq_iff)

lemma getFrameSize_invalid:
  "mode \<noteq> ''interpolation'' \<and> mode \<noteq> ''annotation''
     \<or> mode = ''annotation'' \<and> int (length m) \<le> frame \<Longrightarrow>
   getFrameSize mode frame m
     = Inl (if mode = ''annotation'' then ArgumentError_meta frame else ArgumentError_mode mode)"
  by (auto simp: getFrameSize_def)

text \<open>
  Claim C6, as amended. \<^verbatim>\<open>getFrame\<close> raises an argument error when the mode is neither
  \<^verbatim>\<open>interpolation\<close> nor \<^verbatim>\<open>annotation\<close>, and when the mode is \<^verbatim>\<open>annotation\<close> and the frame
  number is at least the length of the metadata (the cached metadata of the task, or the
  metadata the server returns for a task that has no cache object). A task that has a
  cache object keeps it exactly as it was; for a task that has none, the cache object has
  been created from the metadata when the error is raised.
\<close>

theorem getFrame_argument_error:
  assumes "mode \<noteq> ''interpolation'' \<and> mode \<noteq> ''annotation''
             \<or> mode = ''annotation'' \<and> int (length m) \<le> frame"
    and "cache taskID = Some c \<and> meta c = m \<and> cache' = cache
           \<or> cache taskID = None \<and> getMeta = Inr m
              \<and> cache' = cache(taskID \<mapsto> new_task_cache csize chunkType frame m)"
  shows "\<exists>e. getFrame taskID csize chunkType mode frame startF stopF getMeta cache = (Inl e, cache')
             \<and> is_ArgumentError e"
  using assms(2) getFrameSize_invalid[OF assms(1)]
  by (auto simp: getFrame_def new_task_cache_def Let_def)

text \<open>
  The claim as first stated (no cache state is created) fails for a task without a cache
  object: the call below raises the argument error and leaves a cache object for task 1.
\<close>

theorem getFrame_no_cache_state_counterexample:
  "fst (getFrame 1 9 ''video'' ''annotation'' 5 0 99
          (Inr [\<lparr>size_width = 640, size_height = 480\<rparr>]) Map.empty) = Inl (ArgumentError_meta 5)
   \<and> snd (getFrame 1 9 ''video'' ''annotation'' 5 0 99
          (Inr [\<lparr>size_width = 640, size_height = 480\<rparr>]) Map.empty) 1 \<noteq> Map.empty 1"
  by (simp add: getFrame_def getFrameSize_def new_task_cache_def)

theorem getFrame_argument_error_witness:
  "(\<exists>e. getFrame 1 9 ''video'' ''annotation'' 5 0 99
          (Inr [\<lparr>size_width = 640, size_height = 480\<rparr>]) Map.empty
        = (Inl e, [1 \<mapsto> new_task_cache 9 ''video'' 5 [\<lparr>size_width = 640, size_height = 480\<rparr>]])
        \<and> is_ArgumentError e)
   \<and> (\<exists>e. getFrame 1 9 ''video'' ''sideways'' 0 0 99 (Inl (Exception ''unused''))
            [1 \<mapsto> new_task_cache 9 ''video'' 3 [\<lparr>size_width = 640, size_height = 480\<rparr>]]
        = (Inl e, [1 \<mapsto> new_task_cache 9 ''video'' 3 [\<lparr>size_width = 640, size_height = 480\<rparr>]])
        \<and> is_ArgumentError e)"
  using getFrame_argument_error [of "''annotation''" "[\<lparr>size_width = 640, size_height = 480\<rparr>]" 5
      Map.empty 1 undefined "[1 \<mapsto> new_task_cache 9 ''video'' 5 [\<lparr>size_width = 640, size_height = 480\<rparr>]]"
      "Inr [\<lparr>size_width = 640, size_height = 480\<rparr>]" 9 "''video''" 0 99]
    getFrame_argument_error [of "''sideways''" "[\<lparr>size_width = 640, size_height = 480\<rparr>]" 0
      "[1 \<mapsto> new_task_cache 9 ''video'' 3 [\<lparr>size_width = 640, size_height = 480\<rparr>]]" 1
      "new_task_cache 9 ''video'' 3 [\<lparr>size_width = 640, size_height = 480\<rparr>]"
      "[1 \<mapsto> new_task_cache 9 ''video'' 3 [\<lparr>size_width = 640, size_height = 480\<rparr>]]"
      "Inl (Exception ''unused'')" 9 "''video''" 0 99]
  by (simp add: new_task_cache_def)

section \<open>The state and the trace\<close>


lemma on_task_idle: "frameDataCache w t = Some c \<Longrightarrow> h c = (c, []) \<Longrightarrow> on_task t h w = w"
  by (simp add: on_task_def map_upd_triv)


lemma fetches_append: "fetches t (xs @ ys) = fetches t xs @ fetches t ys"
  by (induction t xs rule: fetches.induct) simp_all

lemma fetches_rejects: "fetches t (map reject_by_frameNumber rs) = []"
  by (induction rs) (simp_all add: reject_by_frameNumber_def)


lemma settlements_append: "settlements q (xs @ ys) = settlements q xs + settlements q ys"
  by (simp add: settlements_def)

lemma run_Cons: "run rt w (e # evs) = run rt (step rt w e) evs"
  by (simp add: run_def)

lemma run_Nil: "run rt w [] = w"
  by (simp add: run_def)

lemma run_append: "run rt w (xs @ ys) = run rt (run rt w xs) ys"
  by (simp add: run_def)

section \<open>Late callbacks\<close>

text \<open>
  Claim C10. The closures \<^verbatim>\<open>onDecodeAll\<close> and \<^verbatim>\<open>rejectRequestAll\<close> do nothing, to the state and
  to every promise, when the task has no active request or when the chunk number of the
  active request is not the chunk number the closure has captured: a late call on behalf
  of a request that was displaced or cleared leaves the request installed after it alone.
\<close>

theorem stale_callback_does_nothing:
  assumes "frameDataCache w (cl_tid cl) = Some c"
    and "activeChunkRequest c = None
           \<or> (\<exists>a. activeChunkRequest c = Some a \<and> chunkNumber a \<noteq> cl_chunkNumber cl)"
  shows "onDecodeAll_call cl n c = (c, []) \<and> rejectRequestAll_call cl c = (c, [])
       \<and> step rt w (DecodeProgress cl n) = w \<and> step rt w (DecodeFailure cl) = w"
proof -
  have idle: "onDecodeAll_call cl n c = (c, [])" "rejectRequestAll_call cl c = (c, [])"
    using assms(2) by (auto simp: onDecodeAll_call_def rejectRequestAll_call_def)
  then show ?thesis
    using assms(1) by (simp add: on_task_idle)
qed

lemmas model_defs =
  run_def miss_def data_implementation_def on_task_def data_browser_def on_null_frame_def
  makeActiveRequest_def new_chunk_request_def push_callback_def rejectRequestAll_call_def
  onDecodeAll_call_def getData_fulfilled_def getData_then_def getData_catch_def
  getData_finally_def wrap_exception_def reject_by_frameNumber_def
  chunk_number_div sample_chunks sample_frame_fields
  activeSlot_def nextSlot_def

lemmas sample_defs =
  sample_world_def sample_cache_def browser_def new_task_cache_def

lemma sample_second_chunk:
  "frameDataCache (run browser sample_world [miss (sample_frame 15, 3)]) 1
     = Some (sample_cache\<lparr>activeChunkRequest := Some
         \<lparr>request = Some (1, 1), chunkNumber = 1, start = 10, stop = 19,
          onDecodeAll = Closure 1 1, rejectRequestAll = Closure 1 1,
          completed = False, callbacks = [\<lparr>promise = 3, frameNumber = 15\<rparr>]\<rparr>\<rparr>)"
  by (simp add: model_defs sample_defs)

theorem stale_callback_does_nothing_witness:
  "step browser sample_world (DecodeProgress (Closure 1 0) 3) = sample_world
   \<and> step browser sample_world (DecodeFailure (Closure 1 0)) = sample_world
   \<and> step browser (run browser sample_world [miss (sample_frame 15, 3)])
         (DecodeProgress (Closure 1 0) 3)
       = run browser sample_world [miss (sample_frame 15, 3)]
   \<and> step browser (run browser sample_world [miss (sample_frame 15, 3)])
         (DecodeFailure (Closure 1 0))
       = run browser sample_world [miss (sample_frame 15, 3)]"
  using stale_callback_does_nothing [of sample_world "Closure 1 0" sample_cache 3 browser]
    stale_callback_does_nothing [of "run browser sample_world [miss (sample_frame 15, 3)]"
      "Closure 1 0"
      "sample_cache\<lparr>activeChunkRequest := Some
         \<lparr>request = Some (1, 1), chunkNumber = 1, start = 10, stop = 19,
          onDecodeAll = Closure 1 1, rejectRequestAll = Closure 1 1,
          completed = False, callbacks = [\<lparr>promise = 3, frameNumber = 15\<rparr>]\<rparr>\<rparr>" 3 browser]
    sample_second_chunk
  by (simp add: sample_world_def sample_cache_def new_task_cache_def)

section \<open>One call of data\<close>

lemma data_browser_start:
  "activeChunkRequest c = None \<Longrightarrow>
   data_browser this p Null False c
     = (c\<lparr>activeChunkRequest := Some ((new_chunk_request this p (chunkSize c))
            \<lparr>request := Some (tid this, chunk_number this (chunkSize c))\<rparr>)\<rparr>,
        [OnServerRequest p, GetData (tid this) (chunk_number this (chunkSize c))])"
  by (simp add: data_browser_def on_null_frame_def makeActiveRequest_def new_chunk_request_def)

lemma data_browser_displace:
  "activeChunkRequest c = Some a \<Longrightarrow> completed a \<Longrightarrow> request_of_task t a \<Longrightarrow>
   data_browser this p Null False c
     = (c\<lparr>activeChunkRequest := Some ((new_chunk_request this p (chunkSize c))
            \<lparr>request := Some (tid this, chunk_number this (chunkSize c))\<rparr>)\<rparr>,
        OnServerRequest p # map reject_by_frameNumber (callbacks a)
          @ [GetData (tid this) (chunk_number this (chunkSize c))])"
  by (simp add: data_browser_def on_null_frame_def makeActiveRequest_def new_chunk_request_def
      rejectRequestAll_call_def request_of_task_def)

lemma data_browser_push:
  "activeChunkRequest c = Some a \<Longrightarrow> \<not> completed a \<Longrightarrow>
   chunkNumber a = chunk_number this (chunkSize c) \<Longrightarrow>
   data_browser this p Null False c
     = (c\<lparr>activeChunkRequest := Some (push_callback this p a)\<rparr>, [OnServerRequest p])"
  by (simp add: data_browser_def on_null_frame_def)

lemma data_browser_queue:
  "activeChunkRequest c = Some a \<Longrightarrow> \<not> completed a \<Longrightarrow>
   chunkNumber a \<noteq> chunk_number this (chunkSize c) \<Longrightarrow>
   data_browser this p Null False c
     = (c\<lparr>nextChunkRequest := Some (new_chunk_request this p (chunkSize c))\<rparr>,
        OnServerRequest p # (case nextChunkRequest c of
                               None \<Rightarrow> []
                             | Some nxt \<Rightarrow> map reject_by_frameNumber (callbacks nxt)))"
  by (simp add: data_browser_def on_null_frame_def)

lemma data_browser_cached:
  "activeChunkRequest c = Some a \<Longrightarrow>
   data_browser this p Null True c
     = (c\<lparr>activeChunkRequest := Some (push_callback this p a)\<rparr>,
        [OnServerRequest p,
         RequestDecodeBlock (tid this) None
           (chunk_start this (chunkSize c)) (chunk_stop this (chunkSize c))
           (Closure (tid this) (chunk_number this (chunkSize c)))
           (Closure (tid this) (chunk_number this (chunkSize c)))])"
  by (simp add: data_browser_def on_null_frame_def)

lemma step_miss:
  "\<not> isNode rt \<Longrightarrow> isBrowser rt \<Longrightarrow> frameDataCache w (tid this) = Some c \<Longrightarrow>
   data_browser this p Null False c = (c', es) \<Longrightarrow>
   step rt w (miss (this, p))
     = \<lparr>frameDataCache = (frameDataCache w)(tid this \<mapsto> c'), trace = trace w @ es\<rparr>"
  by (simp add: miss_def data_implementation_def on_task_def)

section \<open>Displaced requests\<close>

text \<open>
  Claim C5. In a browser, take a call of \<^verbatim>\<open>data\<close> for a frame that is not decoded and whose
  chunk is not cached. If it replaces the active request (a completed one, which carries
  the closures of its own task and chunk) by a new active request, every callback of the
  replaced request is rejected; if it replaces the next request by a new next request,
  every callback of the replaced next request is rejected. Each callback is rejected with
  its own frame number.
\<close>

theorem displaced_waiters_rejected:
  assumes "\<not> isNode rt" and "isBrowser rt" and "frameDataCache w (tid this) = Some c"
  shows "(\<forall>a. activeChunkRequest c = Some a \<and> completed a \<and> request_of_task (tid this) a \<longrightarrow>
            trace (step rt w (miss (this, p)))
              = trace w @ OnServerRequest p # map reject_by_frameNumber (callbacks a)
                  @ [GetData (tid this) (chunk_number this (chunkSize c))]
            \<and> activeSlot (step rt w (miss (this, p))) (tid this)
              = Some ((new_chunk_request this p (chunkSize c))
                        \<lparr>request := Some (tid this, chunk_number this (chunkSize c))\<rparr>))
       \<and> (\<forall>a nxt. activeChunkRequest c = Some a \<and> \<not> completed a
              \<and> chunkNumber a \<noteq> chunk_number this (chunkSize c)
              \<and> nextChunkRequest c = Some nxt \<longrightarrow>
            trace (step rt w (miss (this, p)))
              = trace w @ OnServerRequest p # map reject_by_frameNumber (callbacks nxt)
            \<and> nextSlot (step rt w (miss (this, p))) (tid this)
              = Some (new_chunk_request this p (chunkSize c))
            \<and> activeSlot (step rt w (miss (this, p))) (tid this) = Some a)"
proof (intro conjI allI impI)
  fix a
  assume a: "activeChunkRequest c = Some a \<and> completed a \<and> request_of_task (tid this) a"
  then have d: "data_browser this p Null False c
     = (c\<lparr>activeChunkRequest := Some ((new_chunk_request this p (chunkSize c))
            \<lparr>request := Some (tid this, chunk_number this (chunkSize c))\<rparr>)\<rparr>,
        OnServerRequest p # map reject_by_frameNumber (callbacks a)
          @ [GetData (tid this) (chunk_number this (chunkSize c))])"
    using data_browser_displace[of c a "tid this" this p] by simp
  show "trace (step rt w (miss (this, p)))
          = trace w @ OnServerRequest p # map reject_by_frameNumber (callbacks a)
              @ [GetData (tid this) (chunk_number this (chunkSize c))]"
    by (simp add: step_miss[OF assms d])
  show "activeSlot (step rt w (miss (this, p))) (tid this)
          = Some ((new_chunk_request this p (chunkSize c))
                    \<lparr>request := Some (tid this, chunk_number this (chunkSize c))\<rparr>)"
    by (simp add: step_miss[OF assms d] activeSlot_def)
next
  fix a nxt
  assume a: "activeChunkRequest c = Some a \<and> \<not> completed a
              \<and> chunkNumber a \<noteq> chunk_number this (chunkSize c)
              \<and> nextChunkRequest c = Some nxt"
  then have d: "data_browser this p Null False c
     = (c\<lparr>nextChunkRequest := Some (new_chunk_request this p (chunkSize c))\<rparr>,
        OnServerRequest p # map reject_by_frameNumber (callbacks nxt))"
    by (simp add: data_browser_queue)
  show "trace (step rt w (miss (this, p)))
          = trace w @ OnServerRequest p # map reject_by_frameNumber (callbacks nxt)"
    by (simp add: step_miss[OF assms d])
  show "nextSlot (step rt w (miss (this, p))) (tid this)
          = Some (new_chunk_request this p (chunkSize c))"
    by (simp add: step_miss[OF assms d] nextSlot_def)
  show "activeSlot (step rt w (miss (this, p))) (tid this) = Some a"
    using a by (simp add: step_miss[OF assms d] activeSlot_def)
qed

lemma sample_fetching_state:
  "frameDataCache sample_fetching 1
     = Some (sample_cache\<lparr>activeChunkRequest := Some (sample_request False
         [\<lparr>promise = 1, frameNumber = 3\<rparr>, \<lparr>promise = 2, frameNumber = 7\<rparr>])\<rparr>)"
  "trace sample_fetching = [OnServerRequest 1, GetData 1 0, OnServerRequest 2]"
  by (simp_all add: sample_fetching_def sample_request_def model_defs sample_defs)

lemma sample_decoding_state:
  "frameDataCache sample_decoding 1
     = Some (sample_cache\<lparr>activeChunkRequest := Some (sample_request True
         [\<lparr>promise = 1, frameNumber = 3\<rparr>, \<lparr>promise = 2, frameNumber = 7\<rparr>])\<rparr>)"
  "trace sample_decoding
     = [OnServerRequest 1, GetData 1 0, OnServerRequest 2,
        RequestDecodeBlock 1 (Some 42) 0 9 (Closure 1 0) (Closure 1 0)]"
  using sample_fetching_state
  by (simp_all add: sample_decoding_def sample_request_def run_def
      on_task_def getData_fulfilled_def getData_then_def getData_finally_def sample_defs)

lemma sample_failed_state:
  "frameDataCache sample_failed 1
     = Some (sample_cache\<lparr>activeChunkRequest := Some (sample_request False
         [\<lparr>promise = 1, frameNumber = 3\<rparr>, \<lparr>promise = 2, frameNumber = 7\<rparr>])\<rparr>)"
  "trace sample_failed
     = [OnServerRequest 1, GetData 1 0, OnServerRequest 2,
        Reject 1 (ByError (Exception ''Network Error''))]"
  using sample_fetching_state
  by (simp_all add: sample_failed_def sample_request_def run_def
      on_task_def getData_catch_def wrap_exception_def getData_finally_def sample_defs)

lemma sample_queued_state:
  "frameDataCache sample_queued 1
     = Some (sample_cache\<lparr>
         activeChunkRequest := Some (sample_request False [\<lparr>promise = 1, frameNumber = 3\<rparr>]),
         nextChunkRequest := Some
           \<lparr>request = None, chunkNumber = 1, start = 10, stop = 19,
            onDecodeAll = Closure 1 1, rejectRequestAll = Closure 1 1,
            completed = False, callbacks = [\<lparr>promise = 2, frameNumber = 15\<rparr>]\<rparr>\<rparr>)"
  "trace sample_queued = [OnServerRequest 1, GetData 1 0, OnServerRequest 2]"
  by (simp_all add: sample_queued_def sample_request_def model_defs sample_defs)

theorem displaced_waiters_rejected_witness:
  "trace (step browser sample_decoding (miss (sample_frame 15, 3)))
     = trace sample_decoding
         @ [OnServerRequest 3, Reject 1 (ByFrameNumber 3), Reject 2 (ByFrameNumber 7), GetData 1 1]
   \<and> trace (step browser sample_queued (miss (sample_frame 25, 3)))
     = trace sample_queued @ [OnServerRequest 3, Reject 2 (ByFrameNumber 15)]"
  using displaced_waiters_rejected [of browser sample_decoding "sample_frame 15" _ 3]
    displaced_waiters_rejected [of browser sample_queued "sample_frame 25" _ 3]
    sample_decoding_state(1) sample_queued_state(1)
  by (simp add: sample_request_def request_of_task_def reject_by_frameNumber_def
      chunk_number_div sample_frame_fields sample_defs)

section \<open>Requests for one chunk\<close>

lemma same_active: "activeChunkRequest c = Some a \<Longrightarrow> c\<lparr>activeChunkRequest := Some a\<rparr> = c"
  by (cases c) simp

lemma same_world:
  "frameDataCache w t = Some c \<Longrightarrow>
   \<lparr>frameDataCache = (frameDataCache w)(t \<mapsto> c), trace = trace w\<rparr> = w"
  by (simp add: map_upd_triv)

lemma waiter_pair: "waiter (this, p) = \<lparr>promise = p, frameNumber = number this\<rparr>"
  by (simp add: waiter_def)

lemma run_push:
  assumes "\<not> isNode rt" and "isBrowser rt"
  shows "frameDataCache w t = Some c \<Longrightarrow> activeChunkRequest c = Some a \<Longrightarrow>
    \<not> completed a \<Longrightarrow>
    \<forall>r \<in> set reqs. tid (fst r) = t \<and> chunk_number (fst r) (chunkSize c) = chunkNumber a \<Longrightarrow>
    run rt w (map miss reqs)
      = \<lparr>frameDataCache = (frameDataCache w)(t \<mapsto>
            c\<lparr>activeChunkRequest := Some (a\<lparr>callbacks := callbacks a @ map waiter reqs\<rparr>)\<rparr>),
         trace = trace w @ map (\<lambda>r. OnServerRequest (snd r)) reqs\<rparr>"
proof (induction reqs arbitrary: w c a)
  case Nil
  then show ?case by (simp add: run_Nil same_active map_upd_triv)
next
  case (Cons r reqs)
  obtain this p where r: "r = (this, p)" by (cases r)
  let ?a = "push_callback this p a"
  let ?c = "c\<lparr>activeChunkRequest := Some ?a\<rparr>"
  let ?w = "\<lparr>frameDataCache = (frameDataCache w)(t \<mapsto> ?c), trace = trace w @ [OnServerRequest p]\<rparr>"
  from Cons.prems r have fr: "tid this = t" "chunkNumber a = chunk_number this (chunkSize c)"
    by simp_all
  have "data_browser this p Null False c = (?c, [OnServerRequest p])"
    using Cons.prems fr by (simp add: data_browser_push)
  then have st: "step rt w (miss (this, p)) = ?w"
    using step_miss[OF assms, of w this c p] Cons.prems(1) fr(1) by simp
  have fw: "frameDataCache ?w t = Some ?c"
    by simp
  have "run rt w (map miss (r # reqs)) = run rt ?w (map miss reqs)"
    by (simp add: run_Cons r st)
  also have "\<dots> = \<lparr>frameDataCache = (frameDataCache ?w)(t \<mapsto>
            ?c\<lparr>activeChunkRequest := Some (?a\<lparr>callbacks := callbacks ?a @ map waiter reqs\<rparr>)\<rparr>),
         trace = trace ?w @ map (\<lambda>r. OnServerRequest (snd r)) reqs\<rparr>"
    using Cons.prems by (intro Cons.IH[OF fw]) (simp_all add: push_callback_def)
  also have "\<dots> = \<lparr>frameDataCache = (frameDataCache w)(t \<mapsto>
            c\<lparr>activeChunkRequest := Some (a\<lparr>callbacks := callbacks a @ map waiter (r # reqs)\<rparr>)\<rparr>),
         trace = trace w @ map (\<lambda>r. OnServerRequest (snd r)) (r # reqs)\<rparr>"
    by (simp add: push_callback_def waiter_pair r)
  finally show ?case .
qed

lemma data_browser_restart:
  "activeChunkRequest c = None \<or> (\<exists>a. activeChunkRequest c = Some a \<and> completed a) \<Longrightarrow>
   \<exists>es. data_browser this p Null False c
          = (c\<lparr>activeChunkRequest := Some ((new_chunk_request this p (chunkSize c))
                \<lparr>request := Some (tid this, chunk_number this (chunkSize c))\<rparr>)\<rparr>, es)
        \<and> fetches (tid this) es = [chunk_number this (chunkSize c)]"
  by (auto simp: data_browser_def on_null_frame_def makeActiveRequest_def new_chunk_request_def
      rejectRequestAll_call_def fetches_append fetches_rejects)

lemma fetches_server_requests: "fetches t (map (\<lambda>r. OnServerRequest (snd r)) reqs) = []"
  by (induction reqs) simp_all

text \<open>
  In a browser, take calls of \<^verbatim>\<open>data\<close> for frames of one task that are not decoded, whose
  chunk is not cached and whose chunk number is \<open>k\<close>, with nothing else happening between
  them. If the task has an active request for chunk \<open>k\<close> that is not completed, every call
  is appended to the callbacks of the active request and no call of \<^verbatim>\<open>getData\<close> is made. If
  the task has no active request, or a completed one, and there is at least one call, then
  exactly one call of \<^verbatim>\<open>getData\<close> is made, for chunk \<open>k\<close>.
\<close>

lemma same_chunk_requests_share_fetch:
  assumes "\<not> isNode rt" and "isBrowser rt" and "frameDataCache w t = Some c"
    and "\<forall>r \<in> set reqs. tid (fst r) = t \<and> chunk_number (fst r) (chunkSize c) = k"
  shows "(\<forall>a. activeChunkRequest c = Some a \<and> \<not> completed a \<and> chunkNumber a = k \<longrightarrow>
            activeSlot (run rt w (map miss reqs)) t
              = Some (a\<lparr>callbacks := callbacks a @ map waiter reqs\<rparr>)
            \<and> fetches t (trace (run rt w (map miss reqs))) = fetches t (trace w))
       \<and> ((activeChunkRequest c = None \<or> (\<exists>a. activeChunkRequest c = Some a \<and> completed a))
            \<and> reqs \<noteq> [] \<longrightarrow>
            fetches t (trace (run rt w (map miss reqs))) = fetches t (trace w) @ [k])"
proof (intro conjI allI impI)
  fix a
  assume a: "activeChunkRequest c = Some a \<and> \<not> completed a \<and> chunkNumber a = k"
  then have eq: "run rt w (map miss reqs)
      = \<lparr>frameDataCache = (frameDataCache w)(t \<mapsto>
            c\<lparr>activeChunkRequest := Some (a\<lparr>callbacks := callbacks a @ map waiter reqs\<rparr>)\<rparr>),
         trace = trace w @ map (\<lambda>r. OnServerRequest (snd r)) reqs\<rparr>"
    using assms(3,4) by (intro run_push[OF assms(1,2)]) simp_all
  show "activeSlot (run rt w (map miss reqs)) t
          = Some (a\<lparr>callbacks := callbacks a @ map waiter reqs\<rparr>)"
    by (simp add: eq activeSlot_def)
  show "fetches t (trace (run rt w (map miss reqs))) = fetches t (trace w)"
    by (simp add: eq fetches_append fetches_server_requests)
next
  assume idle: "(activeChunkRequest c = None \<or> (\<exists>a. activeChunkRequest c = Some a \<and> completed a))
            \<and> reqs \<noteq> []"
  then obtain this p rest where reqs: "reqs = (this, p) # rest"
    by (cases reqs) auto
  from assms(4) reqs have fr: "tid this = t" "chunk_number this (chunkSize c) = k"
    by simp_all
  let ?a = "(new_chunk_request this p (chunkSize c))\<lparr>request := Some (t, k)\<rparr>"
  let ?c = "c\<lparr>activeChunkRequest := Some ?a\<rparr>"
  from idle data_browser_restart[of c this p] fr obtain es
    where es: "data_browser this p Null False c = (?c, es)" "fetches t es = [k]"
    by auto
  let ?w = "\<lparr>frameDataCache = (frameDataCache w)(t \<mapsto> ?c), trace = trace w @ es\<rparr>"
  have st: "step rt w (miss (this, p)) = ?w"
    using step_miss[OF assms(1,2), of w this c p ?c es] assms(3) fr(1) es(1) by simp
  have "run rt ?w (map miss rest)
      = \<lparr>frameDataCache = (frameDataCache ?w)(t \<mapsto>
            ?c\<lparr>activeChunkRequest := Some (?a\<lparr>callbacks := callbacks ?a @ map waiter rest\<rparr>)\<rparr>),
         trace = trace ?w @ map (\<lambda>r. OnServerRequest (snd r)) rest\<rparr>"
    using assms(4) reqs fr
    by (intro run_push[OF assms(1,2)]) (simp_all add: new_chunk_request_def)
  then show "fetches t (trace (run rt w (map miss reqs))) = fetches t (trace w) @ [k]"
    by (simp add: reqs run_Cons st fetches_append fetches_server_requests es(2))
qed

section \<open>The loop of onDecodeAll\<close>

lemma resolve_matching_filter:
  "i \<le> length cbs \<Longrightarrow>
   resolve_matching i n cbs
     = (filter (\<lambda>r. frameNumber r \<noteq> n) (take i cbs) @ drop i cbs,
        map resolve_by_frame (rev (filter (\<lambda>r. frameNumber r = n) (take i cbs))))"
proof (induction i arbitrary: cbs)
  case 0
  then show ?case by simp
next
  case (Suc i)
  then have i: "i < length cbs" by simp
  have tk: "take (Suc i) cbs = take i cbs @ [cbs ! i]"
    using i by (simp add: take_Suc_conv_app_nth)
  show ?case
  proof (cases "frameNumber (cbs ! i) = n")
    case True
    let ?rest = "take i cbs @ drop (Suc i) cbs"
    have len: "i \<le> length ?rest" using i by simp
    have t1: "take i ?rest = take i cbs"
      using i by simp
    have t2: "drop i ?rest = drop (Suc i) cbs"
      using i by simp
    have ih: "resolve_matching i n ?rest
      = (filter (\<lambda>r. frameNumber r \<noteq> n) (take i cbs) @ drop (Suc i) cbs,
         map resolve_by_frame (rev (filter (\<lambda>r. frameNumber r = n) (take i cbs))))"
      using Suc.IH[OF len] unfolding t1 t2 .
    have "resolve_matching (Suc i) n cbs
      = (fst (resolve_matching i n ?rest),
         resolve_by_frame (cbs ! i) # snd (resolve_matching i n ?rest))"
      using True by (simp add: resolve_by_frame_def split: prod.splits)
    then show ?thesis
      unfolding ih tk using True by simp
  next
    case False
    have "drop i cbs = cbs ! i # drop (Suc i) cbs"
      using i by (simp add: Cons_nth_drop_Suc)
    with Suc.IH[of cbs] i False tk show ?thesis
      by simp
  qed
qed

lemma resolve_matching_all:
  "resolve_matching (length cbs) n cbs
     = (filter (\<lambda>r. frameNumber r \<noteq> n) cbs,
        map resolve_by_frame (rev (filter (\<lambda>r. frameNumber r = n) cbs)))"
  by (simp add: resolve_matching_filter)

lemma onDecodeAll_call_matching:
  "activeChunkRequest c = Some a \<Longrightarrow> cl_chunkNumber cl = chunkNumber a \<Longrightarrow>
   onDecodeAll_call cl n c
     = (if filter (\<lambda>r. frameNumber r \<noteq> n) (callbacks a) = []
        then c\<lparr>activeChunkRequest := None\<rparr>
        else c\<lparr>activeChunkRequest :=
               Some (a\<lparr>callbacks := filter (\<lambda>r. frameNumber r \<noteq> n) (callbacks a)\<rparr>)\<rparr>,
        map resolve_by_frame (rev (filter (\<lambda>r. frameNumber r = n) (callbacks a))))"
  by (simp add: onDecodeAll_call_def resolve_matching_all)



section \<open>The handlers of a fetch\<close>



lemma getData_finally_idle: "nextChunkRequest c = None \<Longrightarrow> getData_finally t c = (c, [])"
  by (simp add: getData_finally_def)

lemma makeActiveRequest_fetches: "t' \<noteq> t \<Longrightarrow> fetches t (snd (makeActiveRequest t' c)) = []"
  by (simp add: makeActiveRequest_def split: option.splits)





section \<open>The next request stays queued\<close>








section \<open>Requests of a task stay with the task\<close>











lemma cache_of_task_slots:
  "activeChunkRequest c' = activeChunkRequest c \<Longrightarrow>
   nextChunkRequest c' = nextChunkRequest c \<Longrightarrow> cache_of_task t c' = cache_of_task t c"
  by (simp add: cache_of_task_def)

lemma getFrame_slots:
  "snd (getFrame taskID csize chunkType mode frame startF stopF getMeta cache) t = Some c' \<Longrightarrow>
   (\<exists>c. cache t = Some c \<and> activeChunkRequest c' = activeChunkRequest c
        \<and> nextChunkRequest c' = nextChunkRequest c)
   \<or> activeChunkRequest c' = None \<and> nextChunkRequest c' = None"
  by (auto simp: getFrame_def new_task_cache_def Let_def
      split: option.splits sum.splits if_splits)

lemma world_ok_getFrame:
  assumes "world_ok \<lparr>frameDataCache = cache, trace = es\<rparr>"
  shows "world_ok \<lparr>frameDataCache =
            snd (getFrame taskID csize chunkType mode frame startF stopF getMeta cache),
          trace = es\<rparr>"
  unfolding world_ok_def
proof (intro allI impI)
  fix t c'
  assume "frameDataCache \<lparr>frameDataCache =
            snd (getFrame taskID csize chunkType mode frame startF stopF getMeta cache),
          trace = es\<rparr> t = Some c'"
  then have "snd (getFrame taskID csize chunkType mode frame startF stopF getMeta cache) t = Some c'"
    by simp
  from getFrame_slots[OF this] show "cache_of_task t c'"
  proof
    assume "\<exists>c. cache t = Some c \<and> activeChunkRequest c' = activeChunkRequest c
        \<and> nextChunkRequest c' = nextChunkRequest c"
    then obtain c where c: "cache t = Some c" "activeChunkRequest c' = activeChunkRequest c"
        "nextChunkRequest c' = nextChunkRequest c"
      by blast
    from assms c(1) have "cache_of_task t c"
      by (simp add: world_ok_def)
    with c show ?thesis
      by (simp add: cache_of_task_slots[of c' c])
  next
    assume "activeChunkRequest c' = None \<and> nextChunkRequest c' = None"
    then show ?thesis
      by (simp add: cache_of_task_def)
  qed
qed


lemma cache_of_task_active:
  "cache_of_task t c \<Longrightarrow> activeChunkRequest c = Some a \<Longrightarrow> request_of_task t a"
  by (simp add: cache_of_task_def)



section \<open>A fetch that fails\<close>

text \<open>
  Claim C3. A fetch that fails calls the \<^verbatim>\<open>reject\<close> captured by \<^verbatim>\<open>makeActiveRequest\<close>, which
  is the \<^verbatim>\<open>reject\<close> of the call of \<^verbatim>\<open>data\<close> that started the fetch, and nothing else: with
  frames 3 and 7 of the sample task waiting for chunk 0, a network error rejects the
  promise of frame 3 with the wrapped error, the promise of frame 7 is not settled, and
  the active request stays in place with both callbacks and is not completed. A later
  call for frame 3 is appended to that request: no fetch is made and its promise is not
  settled.
\<close>

theorem fetch_failure_leaves_waiters:
  "trace (run browser sample_fetching
         [Rejected 1 1 (ForeignError ''Network Error''), Finally 1 1])
     = trace sample_fetching @ [Reject 1 (ByError (Exception ''Network Error''))]
   \<and> activeSlot (run browser sample_fetching
         [Rejected 1 1 (ForeignError ''Network Error''), Finally 1 1]) 1
     = Some (sample_request False
         [\<lparr>promise = 1, frameNumber = 3\<rparr>, \<lparr>promise = 2, frameNumber = 7\<rparr>])
   \<and> trace (run browser sample_fetching
         [Rejected 1 1 (ForeignError ''Network Error''), Finally 1 1, miss (sample_frame 3, 4)])
     = trace sample_fetching
         @ [Reject 1 (ByError (Exception ''Network Error'')), OnServerRequest 4]
   \<and> activeSlot (run browser sample_fetching
         [Rejected 1 1 (ForeignError ''Network Error''), Finally 1 1, miss (sample_frame 3, 4)]) 1
     = Some (sample_request False
         [\<lparr>promise = 1, frameNumber = 3\<rparr>, \<lparr>promise = 2, frameNumber = 7\<rparr>,
          \<lparr>promise = 4, frameNumber = 3\<rparr>])"
  using sample_fetching_state
  by (simp add: model_defs sample_request_def sample_defs)

text \<open>
  Claim C1. An active request that is not completed takes every call for its chunk and no
  fetch is started, also when its fetch has failed and is no longer in flight: after
  frames 3 and 7 of the sample task were requested and the fetch of chunk 0 was rejected,
  no fetch of the task is in flight, and two further calls for frames 3 and 7 make no call
  of \<^verbatim>\<open>getData\<close>, where the claim has exactly one. The request that takes them is the one
  the failed fetch has left behind.
\<close>

theorem failed_fetch_blocks_chunk:
  "in_flight browser 1 sample_world 0
     [miss (sample_frame 3, 1), miss (sample_frame 7, 2),
      Rejected 1 1 (ForeignError ''Network Error''), Finally 1 1] = 0
   \<and> run browser sample_world
        [miss (sample_frame 3, 1), miss (sample_frame 7, 2),
         Rejected 1 1 (ForeignError ''Network Error''), Finally 1 1] = sample_failed
   \<and> issued sample_failed
        (run browser sample_failed [miss (sample_frame 3, 4), miss (sample_frame 7, 5)])
     = [OnServerRequest 4, OnServerRequest 5]
   \<and> fetches 1 (issued sample_failed
        (run browser sample_failed [miss (sample_frame 3, 4), miss (sample_frame 7, 5)])) = []
   \<and> activeSlot
        (run browser sample_failed [miss (sample_frame 3, 4), miss (sample_frame 7, 5)]) 1
     = Some (sample_request False
         [\<lparr>promise = 1, frameNumber = 3\<rparr>, \<lparr>promise = 2, frameNumber = 7\<rparr>,
          \<lparr>promise = 4, frameNumber = 3\<rparr>, \<lparr>promise = 5, frameNumber = 7\<rparr>])"
proof -
  have "in_flight browser 1 sample_world 0
     [miss (sample_frame 3, 1), miss (sample_frame 7, 2),
      Rejected 1 1 (ForeignError ''Network Error''), Finally 1 1] = 0"
    by (simp add: in_flight_after_def started_def issued_def model_defs sample_defs)
  moreover have "run browser sample_world
        [miss (sample_frame 3, 1), miss (sample_frame 7, 2),
         Rejected 1 1 (ForeignError ''Network Error''), Finally 1 1] = sample_failed"
    by (simp add: sample_failed_def sample_fetching_def run_def)
  moreover have "issued sample_failed
        (run browser sample_failed [miss (sample_frame 3, 4), miss (sample_frame 7, 5)])
     = [OnServerRequest 4, OnServerRequest 5]"
    using sample_failed_state
    by (simp add: issued_def model_defs sample_request_def sample_defs)
  moreover have "activeSlot
        (run browser sample_failed [miss (sample_frame 3, 4), miss (sample_frame 7, 5)]) 1
     = Some (sample_request False
         [\<lparr>promise = 1, frameNumber = 3\<rparr>, \<lparr>promise = 2, frameNumber = 7\<rparr>,
          \<lparr>promise = 4, frameNumber = 3\<rparr>, \<lparr>promise = 5, frameNumber = 7\<rparr>])"
    using sample_failed_state
    by (simp add: model_defs sample_request_def sample_defs)
  ultimately show ?thesis
    by simp
qed

text \<open>
  Claim C2. The \<^verbatim>\<open>makeActiveRequest\<close> that the \<^verbatim>\<open>finally\<close> handler calls for a promoted
  request is the closure of the first call of \<^verbatim>\<open>data\<close>, so the \<^verbatim>\<open>catch\<close> handler of the
  promoted fetch calls the \<^verbatim>\<open>reject\<close> of that first call. With frame 3 waiting for chunk 0
  and frame 15 queued for chunk 1: the fetch of chunk 0 succeeds, the \<^verbatim>\<open>finally\<close> handler
  rejects the promise of frame 3 and starts the fetch of chunk 1, the provider reports the
  frames 0 to 9, and the fetch of chunk 1 fails. The promise of frame 3, a callback of a
  request that was fetched and decoded, has its \<^verbatim>\<open>reject\<close> called twice, where the claim
  has exactly once.
\<close>

theorem promoted_fetch_rejects_first_caller_again:
  "issued sample_queued
     (run browser sample_queued
        ([Fulfilled 1 1 42, Finally 1 1]
         @ map (DecodeProgress (Closure 1 0)) [0, 1, 2, 3, 4, 5, 6, 7, 8, 9]
         @ [Rejected 1 1 (ForeignError ''Network Error''), Finally 1 1]))
     = [RequestDecodeBlock 1 (Some 42) 0 9 (Closure 1 0) (Closure 1 0),
        Reject 1 (ByFrameNumber 3), GetData 1 1,
        Reject 1 (ByError (Exception ''Network Error''))]
   \<and> settlements 1
       (issued sample_queued
          (run browser sample_queued
             ([Fulfilled 1 1 42, Finally 1 1]
              @ map (DecodeProgress (Closure 1 0)) [0, 1, 2, 3, 4, 5, 6, 7, 8, 9]
              @ [Rejected 1 1 (ForeignError ''Network Error''), Finally 1 1]))) = 2"
proof -
  have "issued sample_queued
     (run browser sample_queued
        ([Fulfilled 1 1 42, Finally 1 1]
         @ map (DecodeProgress (Closure 1 0)) [0, 1, 2, 3, 4, 5, 6, 7, 8, 9]
         @ [Rejected 1 1 (ForeignError ''Network Error''), Finally 1 1]))
     = [RequestDecodeBlock 1 (Some 42) 0 9 (Closure 1 0) (Closure 1 0),
        Reject 1 (ByFrameNumber 3), GetData 1 1,
        Reject 1 (ByError (Exception ''Network Error''))]"
    using sample_queued_state
    by (simp add: issued_def model_defs sample_request_def sample_defs)
  then show ?thesis
    by (simp add: settlements_def)
qed

section \<open>The next request\<close>




end
